theory Spec2Isabelle
  imports Main "HOL-Library.Word"
begin

section \<open>dsttime: US daylight-saving time on top of NTP\<close>

text \<open>
  A shallow embedding of \<^verbatim>\<open>dsttime.py\<close>. Python integers are \<open>int\<close>, the 8-field time
  tuple of MicroPython's \<^verbatim>\<open>time\<close> module is a record, exceptions are values of a sum
  type, and the effects of \<^verbatim>\<open>set_local_time\<close> (calls of the time source, printed lines,
  writes of the real-time clock) are fields of an explicit world state.
\<close>

subsection \<open>The time tuple and the platform's calendar primitives\<close>

text \<open>
  \<^verbatim>\<open>(year, month, mday, hour, minute, second, weekday, yearday)\<close>, the tuple that
  \<^verbatim>\<open>time.localtime\<close> and \<^verbatim>\<open>time.gmtime\<close> return and \<^verbatim>\<open>time.mktime\<close> takes.
\<close>

record time_tuple =
  year :: int
  month :: int
  mday :: int
  hour :: int
  minute :: int
  second :: int
  weekday :: int
  yearday :: int

text \<open>
  \<^verbatim>\<open>time.mktime\<close>, \<^verbatim>\<open>time.localtime\<close> and \<^verbatim>\<open>time.gmtime\<close> belong to the platform, not
  to this module. They are modelled as the proleptic Gregorian calendar counted from
  1970-01-01 00:00:00 (the epoch that \<^verbatim>\<open>NTP_DELTA\<close> presupposes), without a time zone
  of the platform's own: \<^verbatim>\<open>localtime\<close> and \<^verbatim>\<open>gmtime\<close> coincide, as they do on a
  MicroPython board. \<open>days_from_civil\<close> counts the days from the epoch to a date whose
  month is in 1..12, \<open>civil_from_days\<close> is its inverse.
\<close>

definition days_from_civil :: "int \<Rightarrow> int \<Rightarrow> int \<Rightarrow> int" where
  "days_from_civil y m d =
     (let y' = (if m \<le> 2 then y - 1 else y);
          era = y' div 400;
          yoe = y' - era * 400;
          mp = (if m > 2 then m - 3 else m + 9);
          doy = (153 * mp + 2) div 5 + d - 1;
          doe = yoe * 365 + yoe div 4 - yoe div 100 + doy
      in era * 146097 + doe - 719468)"

definition civil_from_days :: "int \<Rightarrow> int \<times> int \<times> int" where
  "civil_from_days z =
     (let z' = z + 719468;
          era = z' div 146097;
          doe = z' - era * 146097;
          yoe = (doe - doe div 1460 + doe div 36524 - doe div 146096) div 365;
          doy = doe - (365 * yoe + yoe div 4 - yoe div 100);
          mp = (5 * doy + 2) div 153;
          d = doy - (153 * mp + 2) div 5 + 1;
          m = (if mp < 10 then mp + 3 else mp - 9);
          y = yoe + era * 400
      in (if m \<le> 2 then y + 1 else y, m, d))"

text \<open>The weekday of a day count, 0 = Monday .. 6 = Sunday; 1970-01-01 was a Thursday.\<close>

definition wday_of_days :: "int \<Rightarrow> int" where
  "wday_of_days z = (z + 3) mod 7"

text \<open>\<^verbatim>\<open>time.mktime\<close>: seconds since the epoch; the last two fields are ignored.\<close>

definition mktime :: "time_tuple \<Rightarrow> int" where
  "mktime t =
     days_from_civil (year t) (month t) (mday t) * 86400
       + hour t * 3600 + minute t * 60 + second t"

text \<open>\<^verbatim>\<open>time.gmtime\<close> and \<^verbatim>\<open>time.localtime\<close>: the time tuple of a count of seconds.\<close>

definition gmtime :: "int \<Rightarrow> time_tuple" where
  "gmtime secs =
     (let z = secs div 86400;
          r = secs mod 86400;
          (y, m, d) = civil_from_days z
      in \<lparr> year = y, month = m, mday = d,
           hour = r div 3600, minute = (r mod 3600) div 60, second = r mod 60,
           weekday = wday_of_days z,
           yearday = z - days_from_civil y 1 1 + 1 \<rparr>)"

definition localtime :: "int \<Rightarrow> time_tuple" where
  "localtime secs = gmtime secs"

text \<open>The tuple literal \<^verbatim>\<open>(y, m, d, 0, 0, 0, 0, 0)\<close> that \<^verbatim>\<open>is_dst\<close> passes to \<^verbatim>\<open>mktime\<close>.\<close>

definition midnight :: "int \<Rightarrow> int \<Rightarrow> int \<Rightarrow> time_tuple" where
  "midnight y m d =
     \<lparr> year = y, month = m, mday = d, hour = 0, minute = 0, second = 0,
       weekday = 0, yearday = 0 \<rparr>"

text \<open>The weekday of a calendar date, read off the calendar itself.\<close>

definition wday_of_date :: "int \<Rightarrow> int \<Rightarrow> int \<Rightarrow> int" where
  "wday_of_date y m d = wday_of_days (days_from_civil y m d)"

subsection \<open>Module constants\<close>

definition NTP_DELTA :: int where
  "NTP_DELTA = 2208988800"

definition TIMEZONES :: "string \<rightharpoonup> int" where
  "TIMEZONES = map_of
     [(''US/Eastern'', -5), (''US/Central'', -6), (''US/Mountain'', -7), (''US/Pacific'', -8)]"

subsection \<open>\<^verbatim>\<open>is_dst\<close>\<close>

text \<open>Lines 44-46: the day of March that the code takes for the start of DST.\<close>

definition dst_start_day :: "int \<Rightarrow> int" where
  "dst_start_day y =
     (let march1 = mktime (midnight y 3 1);
          march1_wday = weekday (localtime march1)
      in if march1_wday \<le> 6 then 14 - march1_wday else 7 - (march1_wday - 7))"

text \<open>Lines 49-51: the day of November that the code takes for the end of DST.\<close>

definition dst_end_day :: "int \<Rightarrow> int" where
  "dst_end_day y =
     (let nov1 = mktime (midnight y 11 1);
          nov1_wday = weekday (localtime nov1)
      in 1 + (7 - nov1_wday) mod 7)"

text \<open>
  Lines 53-67. The \<^verbatim>\<open>elif\<close> chain falls through to the final \<^verbatim>\<open>return False\<close> when
  neither inner test of the March or November branch holds.
\<close>

definition is_dst :: "time_tuple \<Rightarrow> bool" where
  "is_dst time_tuple =
     (let y = year time_tuple; m = month time_tuple;
          day = mday time_tuple; h = hour time_tuple
      in if m < 3 \<or> m > 11 then False
         else if 3 < m \<and> m < 11 then True
         else if m = 3 then
           (if day > dst_start_day y then True
            else if day = dst_start_day y then h \<ge> 2
            else False)
         else if m = 11 then
           (if day < dst_end_day y then True
            else if day = dst_end_day y then h < 2
            else False)
         else False)"

subsection \<open>\<^verbatim>\<open>utc_to_local\<close>\<close>

definition utc_to_local :: "time_tuple \<Rightarrow> int \<Rightarrow> time_tuple" where
  "utc_to_local utc_time tz_offset =
     (let epoch = mktime utc_time;
          local_epoch = epoch + tz_offset * 3600;
          local_time = localtime local_epoch
      in if is_dst local_time then localtime (local_epoch + 3600) else local_time)"

subsection \<open>Exceptions\<close>

text \<open>
  The exceptions that leave the module: the two \<^verbatim>\<open>RuntimeError\<close>s and the
  \<^verbatim>\<open>ValueError\<close> it raises itself, with their messages, and the error of
  \<^verbatim>\<open>struct.unpack\<close> on a buffer that is not four bytes long.
\<close>

datatype error =
    RuntimeError string
  | ValueError string
  | UnpackError

subsection \<open>\<^verbatim>\<open>get_ntp_time\<close>\<close>

type_synonym byte = "8 word"

text \<open>What the network does during one call: the exceptions of the socket operations.\<close>

datatype sock_exc = Timeout | SocketError

datatype exchange =
    Send_Raises sock_exc
  | Recv_Raises sock_exc
  | Reply "byte list"

datatype attempt =
    Resolve_Fails
  | Resolved exchange

text \<open>The life of the socket of one call, in order.\<close>

datatype sock_event =
    Socket_Created
  | Set_Timeout int
  | Sent "byte list"
  | Received "byte list"
  | Socket_Closed

text \<open>Line 77: \<^verbatim>\<open>b'\x1b' + 47 * b'\0'\<close>.\<close>

definition request :: "byte list" where
  "request = 0x1B # replicate 47 0"

text \<open>
  \<^verbatim>\<open>struct.unpack("!I", b)[0]\<close>: a big-endian unsigned 32-bit integer; it raises unless
  \<open>b\<close> has exactly four bytes.
\<close>

definition unpack_I :: "byte list \<Rightarrow> error + int" where
  "unpack_I b =
     (if length b = 4 then Inr (foldl (\<lambda>acc x. acc * 256 + uint x) 0 b)
      else Inl UnpackError)"

text \<open>
  Lines 79-80, the body of the \<^verbatim>\<open>try\<close>: the exception it raises or the message
  \<^verbatim>\<open>recv(48)\<close> returns (at most 48 bytes of the datagram), with the socket events.
\<close>

fun try_body :: "exchange \<Rightarrow> (sock_exc + byte list) \<times> sock_event list" where
  "try_body (Send_Raises e) = (Inl e, [])"
| "try_body (Recv_Raises e) = (Inl e, [Sent request])"
| "try_body (Reply datagram) =
     (Inr (take 48 datagram), [Sent request, Received (take 48 datagram)])"

text \<open>
  Lines 71-88. \<open>Inr None\<close> is the return value \<^verbatim>\<open>None\<close>; \<open>Inl\<close> is an exception that
  propagates. The \<^verbatim>\<open>finally\<close> clause closes the socket after the \<^verbatim>\<open>try\<close> body and
  before the reply is unpacked, which happens outside the \<^verbatim>\<open>try\<close>.
\<close>

definition get_ntp_time :: "attempt \<Rightarrow> (error + time_tuple option) \<times> sock_event list" where
  "get_ntp_time a =
     (case a of
        Resolve_Fails \<Rightarrow>
          (Inl (RuntimeError ''You must be connected to a network to use this function.''), [])
      | Resolved x \<Rightarrow>
          (let (r, evs) = try_body x;
               trace = [Socket_Created, Set_Timeout 2] @ evs @ [Socket_Closed]
           in case r of
                Inl e \<Rightarrow> (Inr None, trace)
              | Inr msg \<Rightarrow>
                  (case unpack_I (take 4 (drop 40 msg)) of
                     Inl err \<Rightarrow> (Inl err, trace)
                   | Inr val \<Rightarrow> (Inr (Some (gmtime (val - NTP_DELTA))), trace))))"

subsection \<open>\<^verbatim>\<open>set_local_time\<close>\<close>

text \<open>
  The world that \<^verbatim>\<open>set_local_time\<close> acts on: how many times the time source has been
  called, the lines printed, and the tuples written to the real-time clock, oldest first.
  The network is a function from the number of the call to what happens during it.
\<close>

type_synonym rtc_tuple = "int \<times> int \<times> int \<times> int \<times> int \<times> int \<times> int \<times> int"

record world =
  ntp_calls :: nat
  stdout :: "string list"
  rtc :: "rtc_tuple list"

definition print :: "string \<Rightarrow> world \<Rightarrow> world" where
  "print line w = w\<lparr>stdout := stdout w @ [line]\<rparr>"

definition call_ntp :: "(nat \<Rightarrow> attempt) \<Rightarrow> world \<Rightarrow> (error + time_tuple option) \<times> world" where
  "call_ntp net w =
     (fst (get_ntp_time (net (ntp_calls w))), w\<lparr>ntp_calls := Suc (ntp_calls w)\<rparr>)"

definition failed_notice :: string where
  "failed_notice = ''Failed to get NTP time. Retrying...''"

definition recovery_notice :: string where
  "recovery_notice = ''Successfully retrieved NTP time on retry.''"

text \<open>
  Lines 111-119, the \<^verbatim>\<open>while\<close> loop from a given value of \<^verbatim>\<open>retries\<close>. It returns the
  last value of \<^verbatim>\<open>utc_time\<close>, or the exception that \<^verbatim>\<open>get_ntp_time\<close> raised.
\<close>

function retry_loop ::
  "(nat \<Rightarrow> attempt) \<Rightarrow> nat \<Rightarrow> world \<Rightarrow> (error + time_tuple option) \<times> world" where
  "retry_loop net retries w =
     (if retries < 10 then
        (case call_ntp net w of
           (Inl e, w') \<Rightarrow> (Inl e, w')
         | (Inr None, w') \<Rightarrow> retry_loop net (retries + 1) (print failed_notice w')
         | (Inr (Some utc_time), w') \<Rightarrow>
             (Inr (Some utc_time), if retries > 0 then print recovery_notice w' else w'))
      else (Inr None, w))"
  by pat_completeness auto
termination
  by (relation "measure (\<lambda>(net, retries, w). 10 - retries)") auto

declare retry_loop.simps [simp del]

text \<open>Line 127: \<^verbatim>\<open>local_time[:3] + (0,) + local_time[3:6] + (0,)\<close>.\<close>

definition rtc_fields :: "time_tuple \<Rightarrow> rtc_tuple" where
  "rtc_fields local_time =
     (year local_time, month local_time, mday local_time, 0,
      hour local_time, minute local_time, second local_time, 0)"

definition unsupported_zone :: string where
  "unsupported_zone =
     ''Unsupported timezone name (Supported are: US/Eastern, US/Central, US/Mountain, US/Pacific''"

definition set_local_time ::
  "string \<Rightarrow> (nat \<Rightarrow> attempt) \<Rightarrow> world \<Rightarrow> (error + time_tuple) \<times> world" where
  "set_local_time tz_name net w =
     (case TIMEZONES tz_name of
        None \<Rightarrow> (Inl (ValueError unsupported_zone), w)
      | Some tz_offset \<Rightarrow>
          (case retry_loop net 0 w of
             (Inl e, w1) \<Rightarrow> (Inl e, w1)
           | (Inr None, w1) \<Rightarrow> (Inl (RuntimeError ''Failed to get NTP time''), w1)
           | (Inr (Some utc_time), w1) \<Rightarrow>
               (let local_time = utc_to_local utc_time tz_offset;
                    tm = rtc_fields local_time
                in (Inr local_time, w1\<lparr>rtc := rtc w1 @ [tm]\<rparr>))))"

subsection \<open>Sample inputs\<close>

text \<open>A time tuple with the four fields that \<^verbatim>\<open>is_dst\<close> reads; the others are arbitrary.\<close>

definition stamp :: "int \<Rightarrow> int \<Rightarrow> int \<Rightarrow> int \<Rightarrow> time_tuple" where
  "stamp y m d h =
     \<lparr> year = y, month = m, mday = d, hour = h, minute = 30, second = 0,
       weekday = 0, yearday = 0 \<rparr>"

text \<open>UTC 2024-03-10 08:00:00, a Sunday and the 70th day of the year, as \<^verbatim>\<open>gmtime\<close> gives it.\<close>

definition utc_2024_03_10_08 :: time_tuple where
  "utc_2024_03_10_08 =
     \<lparr> year = 2024, month = 3, mday = 10, hour = 8, minute = 0, second = 0,
       weekday = 6, yearday = 70 \<rparr>"

text \<open>UTC 2024-01-15 12:00:00, a Monday.\<close>

definition utc_2024_01_15_12 :: time_tuple where
  "utc_2024_01_15_12 =
     \<lparr> year = 2024, month = 1, mday = 15, hour = 12, minute = 0, second = 0,
       weekday = 0, yearday = 15 \<rparr>"

text \<open>The local time that US/Eastern shows at that instant, 2024-03-10 04:00:00.\<close>

definition local_2024_03_10_04 :: time_tuple where
  "local_2024_03_10_04 =
     \<lparr> year = 2024, month = 3, mday = 10, hour = 4, minute = 0, second = 0,
       weekday = 6, yearday = 70 \<rparr>"

text \<open>
  A 48-byte reply whose transmit timestamp, bytes 40 to 43, is 3919046400: the NTP time of
  UTC 2024-03-10 08:00:00. And a reply of 43 bytes.
\<close>

definition reply_2024_03_10_08 :: "byte list" where
  "reply_2024_03_10_08 = replicate 40 0 @ [0xE9, 0x97, 0xE7, 0x00] @ replicate 4 0"

definition short_reply :: "byte list" where
  "short_reply = replicate 43 0"

text \<open>A network that times out twice and then answers, and one that always times out.\<close>

definition net_two_timeouts :: "nat \<Rightarrow> attempt" where
  "net_two_timeouts k =
     (if k < 2 then Resolved (Recv_Raises Timeout) else Resolved (Reply reply_2024_03_10_08))"

definition net_down :: "nat \<Rightarrow> attempt" where
  "net_down k = Resolved (Recv_Raises Timeout)"

text \<open>The world before the first call.\<close>

definition boot :: world where
  "boot = \<lparr> ntp_calls = 0, stdout = [], rtc = [] \<rparr>"

section \<open>Properties\<close>

subsection \<open>Calendar facts\<close>

lemma stamp_sel [simp]:
  "year (stamp y m d h) = y" "month (stamp y m d h) = m"
  "mday (stamp y m d h) = d" "hour (stamp y m d h) = h"
  by (simp_all add: stamp_def)

lemma days_from_civil_day: "days_from_civil y m d = days_from_civil y m 1 + (d - 1)"
  by (simp add: days_from_civil_def Let_def)

lemma weekday_gmtime: "weekday (gmtime secs) = wday_of_days (secs div 86400)"
  by (simp add: gmtime_def Let_def split: prod.splits)

lemma weekday_of_midnight:
  "weekday (localtime (mktime (midnight y m d))) = wday_of_date y m d"
  by (simp add: localtime_def weekday_gmtime mktime_def midnight_def wday_of_date_def)

lemma wday_of_date_range: "0 \<le> wday_of_date y m d \<and> wday_of_date y m d \<le> 6"
  by (simp add: wday_of_date_def wday_of_days_def)

lemma wday_of_date_shift:
  "wday_of_date y m d = (wday_of_date y m 1 + (d - 1)) mod 7"
proof -
  have "wday_of_date y m d = (days_from_civil y m 1 + (d - 1) + 3) mod 7"
    using days_from_civil_day [of y m d] by (simp add: wday_of_date_def wday_of_days_def)
  also have "\<dots> = ((days_from_civil y m 1 + 3) + (d - 1)) mod 7"
    by (simp add: algebra_simps)
  also have "\<dots> = ((days_from_civil y m 1 + 3) mod 7 + (d - 1)) mod 7"
    by (rule mod_add_left_eq [symmetric])
  finally show ?thesis by (simp add: wday_of_date_def wday_of_days_def)
qed

text \<open>The weekday that the code reads is in 0..6, so the second arm of line 46 is dead.\<close>

lemma dst_start_day_eq: "dst_start_day y = 14 - wday_of_date y 3 1"
  using wday_of_date_range [of y 3 1]
  by (simp add: dst_start_day_def Let_def weekday_of_midnight)

lemma dst_end_day_eq: "dst_end_day y = 1 + (7 - wday_of_date y 11 1) mod 7"
  by (simp add: dst_end_day_def Let_def weekday_of_midnight)

text \<open>In every year the March day is a Sunday, and it is the second one (day 8 to 14).\<close>

lemma dst_start_day_is_sunday: "wday_of_date y 3 (dst_start_day y) = 6"
proof -
  have "wday_of_date y 3 (dst_start_day y)
          = (wday_of_date y 3 1 + (13 - wday_of_date y 3 1)) mod 7"
    using wday_of_date_shift [of y 3 "dst_start_day y"] by (simp add: dst_start_day_eq)
  then show ?thesis by simp
qed

lemma dst_start_day_second: "8 \<le> dst_start_day y \<and> dst_start_day y \<le> 14"
  using wday_of_date_range [of y 3 1] by (simp add: dst_start_day_eq)

text \<open>
  In every year the November day is a Monday: \<^verbatim>\<open>1 + (7 - w) % 7\<close> is the first Sunday
  when \<open>w\<close> counts from Sunday = 0, but \<open>w\<close> counts from Monday = 0.
\<close>

lemma dst_end_day_is_monday: "wday_of_date y 11 (dst_end_day y) = 0"
proof -
  let ?w = "wday_of_date y 11 1"
  have "wday_of_date y 11 (dst_end_day y) = (?w + (7 - ?w) mod 7) mod 7"
    using wday_of_date_shift [of y 11 "dst_end_day y"] by (simp add: dst_end_day_eq)
  also have "\<dots> = (?w + (7 - ?w)) mod 7"
    by (simp add: mod_simps)
  finally show ?thesis by simp
qed

lemma dst_start_day_2024: "dst_start_day 2024 = 10"
  by (simp add: dst_start_day_eq wday_of_date_def wday_of_days_def days_from_civil_def)

lemma dst_end_day_2024: "dst_end_day 2024 = 4"
  by (simp add: dst_end_day_eq wday_of_date_def wday_of_days_def days_from_civil_def)

subsection \<open>The boundary days of \<^verbatim>\<open>is_dst\<close>\<close>

text \<open>
  C1. The claim: in every year both boundary days that \<^verbatim>\<open>is_dst\<close> computes are Sundays.
  In 2024 the March day is the 10th, a Sunday, but the November day is the 4th, a Monday;
  the first Sunday of November 2024 is the 3rd, and at noon of that day \<^verbatim>\<open>is_dst\<close> still
  answers true.
\<close>

theorem is_dst_november_2024_boundary:
  "dst_start_day 2024 = 10 \<and> wday_of_date 2024 3 10 = 6 \<and>
   dst_end_day 2024 = 4 \<and> wday_of_date 2024 11 4 = 0 \<and> wday_of_date 2024 11 3 = 6 \<and>
   is_dst \<lparr> year = 2024, month = 11, mday = 3, hour = 12, minute = 0, second = 0,
            weekday = 6, yearday = 308 \<rparr>"
  by (simp add: is_dst_def dst_start_day_eq dst_end_day_eq wday_of_date_def wday_of_days_def
      days_from_civil_def)

subsection \<open>The decision table of \<^verbatim>\<open>is_dst\<close>\<close>

text \<open>
  C2. Relative to the start day and the end day that the code computes for the year of the
  timestamp: a month outside 3..11 is not DST; a month strictly between 3 and 11 is DST;
  in March it is DST exactly when the day is after the start day, or is the start day with
  the hour at least 2; in November exactly when the day is before the end day, or is the end
  day with the hour below 2.
\<close>

theorem is_dst_decision_table:
  "(month t < 3 \<or> month t > 11 \<longrightarrow> \<not> is_dst t) \<and>
   (3 < month t \<and> month t < 11 \<longrightarrow> is_dst t) \<and>
   (month t = 3 \<longrightarrow>
      is_dst t = (mday t > dst_start_day (year t) \<or>
                  mday t = dst_start_day (year t) \<and> hour t \<ge> 2)) \<and>
   (month t = 11 \<longrightarrow>
      is_dst t = (mday t < dst_end_day (year t) \<or>
                  mday t = dst_end_day (year t) \<and> hour t < 2))"
  by (auto simp add: is_dst_def Let_def)

theorem is_dst_decision_table_witness:
  "(month (stamp 2024 1 15 12) < 3 \<and> \<not> is_dst (stamp 2024 1 15 12)) \<and>
   (3 < month (stamp 2024 7 3 9) \<and> month (stamp 2024 7 3 9) < 11 \<and>
      is_dst (stamp 2024 7 3 9)) \<and>
   (month (stamp 2024 3 10 2) = 3 \<and>
      mday (stamp 2024 3 10 2) = dst_start_day (year (stamp 2024 3 10 2)) \<and>
      hour (stamp 2024 3 10 2) \<ge> 2 \<and> is_dst (stamp 2024 3 10 2)) \<and>
   (month (stamp 2024 11 4 1) = 11 \<and>
      mday (stamp 2024 11 4 1) = dst_end_day (year (stamp 2024 11 4 1)) \<and>
      hour (stamp 2024 11 4 1) < 2 \<and> is_dst (stamp 2024 11 4 1))"
  using is_dst_decision_table [of "stamp 2024 1 15 12"]
        is_dst_decision_table [of "stamp 2024 7 3 9"]
        is_dst_decision_table [of "stamp 2024 3 10 2"]
        is_dst_decision_table [of "stamp 2024 11 4 1"]
  by (simp add: dst_start_day_2024 dst_end_day_2024)

lemma probe_january: "\<not> is_dst (localtime (mktime utc_2024_01_15_12 + (-5) * 3600))"
  by code_simp

lemma probe_march: "is_dst (localtime (mktime utc_2024_03_10_08 + (-5) * 3600))"
  by code_simp

text \<open>
  C10. Two time tuples that agree on year, month, day and hour get the same answer from
  \<^verbatim>\<open>is_dst\<close>, whatever their minute, second, weekday and day of the year.
\<close>

theorem is_dst_reads_four_fields:
  "year t = year t' \<Longrightarrow> month t = month t' \<Longrightarrow> mday t = mday t' \<Longrightarrow> hour t = hour t'
     \<Longrightarrow> is_dst t = is_dst t'"
  by (simp add: is_dst_def)

theorem is_dst_reads_four_fields_witness:
  "year (stamp 2024 3 10 8) = year utc_2024_03_10_08 \<and>
   month (stamp 2024 3 10 8) = month utc_2024_03_10_08 \<and>
   mday (stamp 2024 3 10 8) = mday utc_2024_03_10_08 \<and>
   hour (stamp 2024 3 10 8) = hour utc_2024_03_10_08 \<and>
   minute (stamp 2024 3 10 8) \<noteq> minute utc_2024_03_10_08 \<and>
   weekday (stamp 2024 3 10 8) \<noteq> weekday utc_2024_03_10_08 \<and>
   yearday (stamp 2024 3 10 8) \<noteq> yearday utc_2024_03_10_08 \<and>
   is_dst (stamp 2024 3 10 8) = is_dst utc_2024_03_10_08"
  using is_dst_reads_four_fields [of "stamp 2024 3 10 8" utc_2024_03_10_08]
  by (simp add: utc_2024_03_10_08_def stamp_def)

subsection \<open>\<^verbatim>\<open>utc_to_local\<close>\<close>

text \<open>
  C3. \<^verbatim>\<open>utc_to_local\<close> returns the calendar form of the epoch of the UTC tuple plus the zone
  offset plus \<open>d\<close>, where \<open>d\<close> is 3600 when \<^verbatim>\<open>is_dst\<close> holds of the local tuple before any
  DST shift and 0 otherwise; the test is made once, on that probe. Without DST the result is
  UTC plus the offset, with DST it is UTC plus the offset plus one hour.
\<close>

theorem utc_to_local_one_shot:
  "utc_to_local u off =
     localtime (mktime u + off * 3600 +
                (if is_dst (localtime (mktime u + off * 3600)) then 3600 else 0)) \<and>
   (\<not> is_dst (localtime (mktime u + off * 3600)) \<longrightarrow>
      utc_to_local u off = localtime (mktime u + off * 3600)) \<and>
   (is_dst (localtime (mktime u + off * 3600)) \<longrightarrow>
      utc_to_local u off = localtime (mktime u + off * 3600 + 3600))"
  by (simp add: utc_to_local_def Let_def)

theorem utc_to_local_one_shot_witness:
  "(\<not> is_dst (localtime (mktime utc_2024_01_15_12 + (-5) * 3600)) \<and>
    utc_to_local utc_2024_01_15_12 (-5)
      = localtime (mktime utc_2024_01_15_12 + (-5) * 3600)) \<and>
   (is_dst (localtime (mktime utc_2024_03_10_08 + (-5) * 3600)) \<and>
    utc_to_local utc_2024_03_10_08 (-5)
      = localtime (mktime utc_2024_03_10_08 + (-5) * 3600 + 3600))"
  using utc_to_local_one_shot [of utc_2024_01_15_12 "-5"]
        utc_to_local_one_shot [of utc_2024_03_10_08 "-5"]
        probe_january probe_march
  by blast

text \<open>
  C4. UTC 2024-03-10 08:00:00 converted with the offset of US/Eastern, which is -5, is
  2024-03-10 04:00:00: the start day computed for 2024 is March 10 and the local tuple
  before the shift, 03:00 of that day, is in DST.
\<close>

theorem utc_to_local_eastern_2024_03_10:
  "TIMEZONES ''US/Eastern'' = Some (-5) \<and>
   dst_start_day 2024 = 10 \<and>
   is_dst (localtime (mktime \<lparr> year = 2024, month = 3, mday = 10, hour = 8, minute = 0,
                               second = 0, weekday = 6, yearday = 70 \<rparr> + (-5) * 3600)) \<and>
   utc_to_local \<lparr> year = 2024, month = 3, mday = 10, hour = 8, minute = 0, second = 0,
                   weekday = 6, yearday = 70 \<rparr> (-5)
     = \<lparr> year = 2024, month = 3, mday = 10, hour = 4, minute = 0, second = 0,
         weekday = 6, yearday = 70 \<rparr>"
  by code_simp

subsection \<open>\<^verbatim>\<open>get_ntp_time\<close>: results\<close>

lemma get_ntp_time_sample:
  "fst (get_ntp_time (Resolved (Reply reply_2024_03_10_08))) = Inr (Some utc_2024_03_10_08)"
  by code_simp

lemma get_ntp_time_short: "fst (get_ntp_time (Resolved (Reply short_reply))) = Inl UnpackError"
  by code_simp

lemma get_ntp_time_raises [simp]:
  "fst (get_ntp_time (Resolved (Send_Raises e))) = Inr None"
  "fst (get_ntp_time (Resolved (Recv_Raises e))) = Inr None"
  by (simp_all add: get_ntp_time_def)

lemma unpack_I_short: "length b \<noteq> 4 \<Longrightarrow> unpack_I b = Inl UnpackError"
  by (simp add: unpack_I_def)

lemma unpack_I_four: "length b = 4 \<Longrightarrow> \<exists>v. unpack_I b = Inr v"
  by (simp add: unpack_I_def)

text \<open>Fewer than 44 bytes leave fewer than four in \<^verbatim>\<open>msg[40:44]\<close>.\<close>

lemma get_ntp_time_reply_short:
  assumes "length datagram < 44"
  shows "fst (get_ntp_time (Resolved (Reply datagram))) = Inl UnpackError"
proof -
  have "length (take 4 (drop 40 (take 48 datagram))) \<noteq> 4"
    using assms by simp
  then show ?thesis
    by (simp add: get_ntp_time_def unpack_I_short del: take_drop drop_take)
qed

lemma get_ntp_time_reply_long:
  assumes "44 \<le> length datagram"
  shows "\<exists>t. fst (get_ntp_time (Resolved (Reply datagram))) = Inr (Some t)"
proof -
  have "length (take 4 (drop 40 (take 48 datagram))) = 4"
    using assms by simp
  then obtain v where "unpack_I (take 4 (drop 40 (take 48 datagram))) = Inr v"
    using unpack_I_four by blast
  then show ?thesis
    by (simp add: get_ntp_time_def del: take_drop drop_take)
qed

text \<open>
  C6, as stated: every failure after the request is sent, a reply of fewer than 44 bytes
  included, makes \<^verbatim>\<open>get_ntp_time\<close> return \<^verbatim>\<open>None\<close>. A reply of 43 bytes does not: the
  reply is unpacked after the \<^verbatim>\<open>try\<close> statement, and the error of \<^verbatim>\<open>struct.unpack\<close>
  propagates.
\<close>

theorem get_ntp_time_short_reply_raises:
  "length short_reply < 44 \<and>
   fst (get_ntp_time (Resolved (Reply short_reply))) = Inl UnpackError \<and>
   fst (get_ntp_time (Resolved (Reply short_reply))) \<noteq> Inr None"
  by (simp add: get_ntp_time_short) (simp add: short_reply_def)

text \<open>
  C6, amended. When \<^verbatim>\<open>sendto\<close> or \<^verbatim>\<open>recv\<close> raises (a timeout or a socket error),
  \<^verbatim>\<open>get_ntp_time\<close> returns \<^verbatim>\<open>None\<close>. A reply of fewer than 44 bytes raises the error of
  \<^verbatim>\<open>struct.unpack\<close>; a reply of at least 44 bytes gives a time tuple. The
  \<^verbatim>\<open>RuntimeError\<close> is raised exactly when the address resolution fails.
\<close>

theorem get_ntp_time_outcomes:
  "fst (get_ntp_time (Resolved (Send_Raises e))) = Inr None \<and>
   fst (get_ntp_time (Resolved (Recv_Raises e))) = Inr None \<and>
   (length datagram < 44 \<longrightarrow>
      fst (get_ntp_time (Resolved (Reply datagram))) = Inl UnpackError) \<and>
   (44 \<le> length datagram \<longrightarrow>
      (\<exists>t. fst (get_ntp_time (Resolved (Reply datagram))) = Inr (Some t))) \<and>
   ((\<exists>msg. fst (get_ntp_time a) = Inl (RuntimeError msg)) \<longleftrightarrow> a = Resolve_Fails)"
proof (intro conjI impI)
  show "(\<exists>msg. fst (get_ntp_time a) = Inl (RuntimeError msg)) \<longleftrightarrow> a = Resolve_Fails"
  proof (cases a)
    case Resolve_Fails
    then show ?thesis by (simp add: get_ntp_time_def)
  next
    case (Resolved x)
    show ?thesis
    proof (cases x)
      case (Reply datagram)
      show ?thesis
      proof (cases "length datagram < 44")
        case True
        with Resolved Reply show ?thesis by (simp add: get_ntp_time_reply_short)
      next
        case False
        then obtain t where "fst (get_ntp_time (Resolved (Reply datagram))) = Inr (Some t)"
          using get_ntp_time_reply_long [of datagram] by auto
        with Resolved Reply show ?thesis by simp
      qed
    qed (simp_all add: Resolved)
  qed
qed (simp_all add: get_ntp_time_reply_short get_ntp_time_reply_long)

theorem get_ntp_time_outcomes_witness:
  "length short_reply < 44 \<and>
   fst (get_ntp_time (Resolved (Reply short_reply))) = Inl UnpackError \<and>
   44 \<le> length reply_2024_03_10_08 \<and>
   (\<exists>t. fst (get_ntp_time (Resolved (Reply reply_2024_03_10_08))) = Inr (Some t)) \<and>
   (\<exists>msg. fst (get_ntp_time Resolve_Fails) = Inl (RuntimeError msg))"
  using get_ntp_time_outcomes [of Timeout short_reply Resolve_Fails]
        get_ntp_time_outcomes [of Timeout reply_2024_03_10_08 Resolve_Fails]
  by (simp add: short_reply_def reply_2024_03_10_08_def)

subsection \<open>\<^verbatim>\<open>get_ntp_time\<close>: the socket\<close>

lemma get_ntp_time_trace:
  "snd (get_ntp_time (Resolved x)) =
     Socket_Created # (Set_Timeout 2 # snd (try_body x)) @ [Socket_Closed]"
  by (cases x) (simp_all add: get_ntp_time_def Let_def split: sum.splits)

lemma try_body_events:
  "Socket_Created \<notin> set (snd (try_body x)) \<and> Socket_Closed \<notin> set (snd (try_body x))"
  by (cases x) simp_all

text \<open>
  C9. Whenever \<^verbatim>\<open>get_ntp_time\<close> has created the socket, closing it is the last thing that
  happens to it before the function returns or lets an exception out: after a reply, after
  a timeout or a socket error, and when unpacking the reply raises.
\<close>

theorem get_ntp_time_closes_socket:
  "Socket_Created \<in> set (snd (get_ntp_time a)) \<Longrightarrow>
   \<exists>evs. snd (get_ntp_time a) = Socket_Created # evs @ [Socket_Closed] \<and>
         Socket_Created \<notin> set evs \<and> Socket_Closed \<notin> set evs"
proof (cases a)
  case Resolve_Fails
  assume "Socket_Created \<in> set (snd (get_ntp_time a))"
  with Resolve_Fails show ?thesis by (simp add: get_ntp_time_def)
next
  case (Resolved x)
  have "snd (get_ntp_time a) =
          Socket_Created # (Set_Timeout 2 # snd (try_body x)) @ [Socket_Closed]"
    using Resolved get_ntp_time_trace by simp
  moreover have "Socket_Created \<notin> set (Set_Timeout 2 # snd (try_body x))"
    and "Socket_Closed \<notin> set (Set_Timeout 2 # snd (try_body x))"
    using try_body_events [of x] by simp_all
  ultimately show ?thesis by blast
qed

theorem get_ntp_time_closes_socket_witness:
  "Socket_Created \<in> set (snd (get_ntp_time (Resolved (Reply short_reply)))) \<and>
   fst (get_ntp_time (Resolved (Reply short_reply))) = Inl UnpackError \<and>
   (\<exists>evs. snd (get_ntp_time (Resolved (Reply short_reply)))
            = Socket_Created # evs @ [Socket_Closed] \<and>
          Socket_Created \<notin> set evs \<and> Socket_Closed \<notin> set evs)"
proof -
  have c: "Socket_Created \<in> set (snd (get_ntp_time (Resolved (Reply short_reply))))"
    by (simp add: get_ntp_time_trace)
  show ?thesis
    using c get_ntp_time_closes_socket [OF c] get_ntp_time_short by simp
qed

subsection \<open>The retry loop\<close>

lemma notices_differ: "failed_notice \<noteq> recovery_notice"
  by (simp add: failed_notice_def recovery_notice_def)

lemma count_recovery:
  "count_list (xs @ replicate N failed_notice @ (if N = 0 then [] else [recovery_notice]))
       recovery_notice
     = count_list xs recovery_notice + (if N = 0 then 0 else 1)"
  using notices_differ by (induction N) auto

text \<open>\<open>N\<close> calls that return \<^verbatim>\<open>None\<close> and then one that succeeds, within the ten tries.\<close>

lemma retry_loop_recovers:
  "retries + N < 10 \<Longrightarrow>
   (\<forall>i<N. fst (get_ntp_time (net (ntp_calls w + i))) = Inr None) \<Longrightarrow>
   fst (get_ntp_time (net (ntp_calls w + N))) = Inr (Some u) \<Longrightarrow>
   retry_loop net retries w =
     (Inr (Some u),
      w\<lparr>ntp_calls := ntp_calls w + N + 1,
        stdout := stdout w @ replicate N failed_notice
                    @ (if retries + N > 0 then [recovery_notice] else [])\<rparr>)"
proof (induction N arbitrary: retries w)
  case 0
  then show ?case
    by (subst retry_loop.simps) (simp add: call_ntp_def print_def)
next
  case (Suc N)
  let ?w = "print failed_notice (w\<lparr>ntp_calls := Suc (ntp_calls w)\<rparr>)"
  from Suc.prems(2) have first: "fst (get_ntp_time (net (ntp_calls w))) = Inr None"
    by (metis add.right_neutral zero_less_Suc)
  have rest: "\<forall>i<N. fst (get_ntp_time (net (ntp_calls ?w + i))) = Inr None"
    using Suc.prems(2) by (auto simp add: print_def)
  have last: "fst (get_ntp_time (net (ntp_calls ?w + N))) = Inr (Some u)"
    using Suc.prems(3) by (simp add: print_def)
  have "retry_loop net retries w = retry_loop net (retries + 1) ?w"
    using Suc.prems(1) first by (subst retry_loop.simps) (simp add: call_ntp_def)
  also have "\<dots> = (Inr (Some u),
      ?w\<lparr>ntp_calls := ntp_calls ?w + N + 1,
        stdout := stdout ?w @ replicate N failed_notice
                    @ (if retries + 1 + N > 0 then [recovery_notice] else [])\<rparr>)"
    using Suc.IH [of "retries + 1" ?w] Suc.prems(1) rest last by simp
  finally show ?case
    by (simp add: print_def replicate_app_Cons_same)
qed

text \<open>Only calls that return \<^verbatim>\<open>None\<close>, as many as there are tries left.\<close>

lemma retry_loop_exhausts:
  "retries + N = 10 \<Longrightarrow>
   (\<forall>i<N. fst (get_ntp_time (net (ntp_calls w + i))) = Inr None) \<Longrightarrow>
   retry_loop net retries w =
     (Inr None,
      w\<lparr>ntp_calls := ntp_calls w + N, stdout := stdout w @ replicate N failed_notice\<rparr>)"
proof (induction N arbitrary: retries w)
  case 0
  then show ?case
    by (subst retry_loop.simps) simp
next
  case (Suc N)
  let ?w = "print failed_notice (w\<lparr>ntp_calls := Suc (ntp_calls w)\<rparr>)"
  from Suc.prems(2) have first: "fst (get_ntp_time (net (ntp_calls w))) = Inr None"
    by (metis add.right_neutral zero_less_Suc)
  have rest: "\<forall>i<N. fst (get_ntp_time (net (ntp_calls ?w + i))) = Inr None"
    using Suc.prems(2) by (auto simp add: print_def)
  have "retry_loop net retries w = retry_loop net (retries + 1) ?w"
    using Suc.prems(1) first by (subst retry_loop.simps) (simp add: call_ntp_def)
  also have "\<dots> = (Inr None,
      ?w\<lparr>ntp_calls := ntp_calls ?w + N, stdout := stdout ?w @ replicate N failed_notice\<rparr>)"
    using Suc.IH [of "retries + 1" ?w] Suc.prems(1) rest by simp
  finally show ?case
    by (simp add: print_def replicate_app_Cons_same)
qed

text \<open>The loop never touches the clock.\<close>

lemma retry_loop_rtc: "rtc (snd (retry_loop net retries w)) = rtc w"
proof (induction "10 - retries" arbitrary: retries w)
  case 0
  then show ?case by (subst retry_loop.simps) simp
next
  case (Suc n)
  then have lt: "retries < 10" and n: "n = 10 - (retries + 1)" by simp_all
  let ?w = "print failed_notice (w\<lparr>ntp_calls := Suc (ntp_calls w)\<rparr>)"
  have IH: "rtc (snd (retry_loop net (retries + 1) ?w)) = rtc ?w"
    using Suc.hyps(1) [OF n] .
  show ?case
    using lt IH
    by (subst retry_loop.simps)
       (auto simp add: call_ntp_def print_def split: sum.splits option.splits)
qed

lemma eastern: "TIMEZONES ''US/Eastern'' = Some (-5)"
  by (simp add: TIMEZONES_def)

lemma utc_to_local_sample: "utc_to_local utc_2024_03_10_08 (-5) = local_2024_03_10_04"
  by code_simp

lemma sync_sample:
  "set_local_time ''US/Eastern'' net_two_timeouts boot =
     (Inr local_2024_03_10_04,
      \<lparr> ntp_calls = 3, stdout = [failed_notice, failed_notice, recovery_notice],
        rtc = [(2024, 3, 10, 0, 4, 0, 0, 0)] \<rparr>)"
proof -
  have "retry_loop net_two_timeouts 0 boot =
     (Inr (Some utc_2024_03_10_08),
      boot\<lparr>ntp_calls := ntp_calls boot + 2 + 1,
        stdout := stdout boot @ replicate 2 failed_notice
                    @ (if 0 + 2 > (0::nat) then [recovery_notice] else [])\<rparr>)"
    by (rule retry_loop_recovers)
       (simp_all add: net_two_timeouts_def boot_def get_ntp_time_sample)
  then show ?thesis
    by (simp add: set_local_time_def eastern utc_to_local_sample rtc_fields_def boot_def
          local_2024_03_10_04_def numeral_2_eq_2)
qed

lemma sync_down:
  "set_local_time ''US/Eastern'' net_down boot =
     (Inl (RuntimeError ''Failed to get NTP time''),
      \<lparr> ntp_calls = 10, stdout = replicate 10 failed_notice, rtc = [] \<rparr>)"
proof -
  have "retry_loop net_down 0 boot =
     (Inr None,
      boot\<lparr>ntp_calls := ntp_calls boot + 10,
        stdout := stdout boot @ replicate 10 failed_notice\<rparr>)"
    by (rule retry_loop_exhausts) (simp_all add: net_down_def)
  then show ?thesis
    by (simp add: set_local_time_def eastern boot_def)
qed

subsection \<open>\<^verbatim>\<open>set_local_time\<close>\<close>

text \<open>
  C5. For a supported zone: when the time source returns \<^verbatim>\<open>None\<close> on the first \<open>N\<close> calls,
  \<open>N < 10\<close>, and a time tuple on the next, \<^verbatim>\<open>set_local_time\<close> calls it \<open>N + 1\<close> times, prints
  the retry notice \<open>N\<close> times and then the recovery notice once, or not at all when
  \<open>N = 0\<close>, and returns the local time of that tuple. When the time source returns \<^verbatim>\<open>None\<close>
  ten times, \<^verbatim>\<open>set_local_time\<close> calls it ten times and raises
  \<^verbatim>\<open>RuntimeError("Failed to get NTP time")\<close>.
\<close>

theorem set_local_time_retry:
  "TIMEZONES tz_name = Some off \<Longrightarrow>
   (N < 10 \<and> (\<forall>i<N. fst (get_ntp_time (net (ntp_calls w + i))) = Inr None) \<and>
    fst (get_ntp_time (net (ntp_calls w + N))) = Inr (Some u) \<longrightarrow>
      fst (set_local_time tz_name net w) = Inr (utc_to_local u off) \<and>
      ntp_calls (snd (set_local_time tz_name net w)) = ntp_calls w + N + 1 \<and>
      stdout (snd (set_local_time tz_name net w)) =
        stdout w @ replicate N failed_notice @ (if N = 0 then [] else [recovery_notice]) \<and>
      count_list (stdout (snd (set_local_time tz_name net w))) recovery_notice =
        count_list (stdout w) recovery_notice + (if N = 0 then 0 else 1)) \<and>
   ((\<forall>i<10. fst (get_ntp_time (net (ntp_calls w + i))) = Inr None) \<longrightarrow>
      fst (set_local_time tz_name net w) = Inl (RuntimeError ''Failed to get NTP time'') \<and>
      ntp_calls (snd (set_local_time tz_name net w)) = ntp_calls w + 10 \<and>
      stdout (snd (set_local_time tz_name net w)) = stdout w @ replicate 10 failed_notice)"
proof (intro conjI impI)
  assume tz: "TIMEZONES tz_name = Some off"
  assume h: "N < 10 \<and> (\<forall>i<N. fst (get_ntp_time (net (ntp_calls w + i))) = Inr None) \<and>
    fst (get_ntp_time (net (ntp_calls w + N))) = Inr (Some u)"
  then have loop: "retry_loop net 0 w =
     (Inr (Some u),
      w\<lparr>ntp_calls := ntp_calls w + N + 1,
        stdout := stdout w @ replicate N failed_notice
                    @ (if 0 + N > 0 then [recovery_notice] else [])\<rparr>)"
    by (intro retry_loop_recovers) simp_all
  show "fst (set_local_time tz_name net w) = Inr (utc_to_local u off)"
    by (simp add: set_local_time_def tz loop Let_def)
  show "ntp_calls (snd (set_local_time tz_name net w)) = ntp_calls w + N + 1"
    by (simp add: set_local_time_def tz loop Let_def)
  show out: "stdout (snd (set_local_time tz_name net w)) =
        stdout w @ replicate N failed_notice @ (if N = 0 then [] else [recovery_notice])"
    by (simp add: set_local_time_def tz loop Let_def)
  show "count_list (stdout (snd (set_local_time tz_name net w))) recovery_notice =
        count_list (stdout w) recovery_notice + (if N = 0 then 0 else 1)"
    by (simp only: out count_recovery)
next
  assume tz: "TIMEZONES tz_name = Some off"
  assume h: "\<forall>i<10. fst (get_ntp_time (net (ntp_calls w + i))) = Inr None"
  then have loop: "retry_loop net 0 w =
     (Inr None,
      w\<lparr>ntp_calls := ntp_calls w + 10, stdout := stdout w @ replicate 10 failed_notice\<rparr>)"
    by (intro retry_loop_exhausts) simp_all
  show "fst (set_local_time tz_name net w) = Inl (RuntimeError ''Failed to get NTP time'')"
    by (simp add: set_local_time_def tz loop)
  show "ntp_calls (snd (set_local_time tz_name net w)) = ntp_calls w + 10"
    by (simp add: set_local_time_def tz loop)
  show "stdout (snd (set_local_time tz_name net w)) = stdout w @ replicate 10 failed_notice"
    by (simp add: set_local_time_def tz loop)
qed

theorem set_local_time_retry_witness:
  "TIMEZONES ''US/Eastern'' = Some (-5) \<and>
   (2::nat) < 10 \<and>
   fst (get_ntp_time (net_two_timeouts (ntp_calls boot + 0))) = Inr None \<and>
   fst (get_ntp_time (net_two_timeouts (ntp_calls boot + 1))) = Inr None \<and>
   fst (get_ntp_time (net_two_timeouts (ntp_calls boot + 2))) = Inr (Some utc_2024_03_10_08) \<and>
   fst (set_local_time ''US/Eastern'' net_two_timeouts boot)
     = Inr (utc_to_local utc_2024_03_10_08 (-5)) \<and>
   ntp_calls (snd (set_local_time ''US/Eastern'' net_two_timeouts boot)) = 3 \<and>
   stdout (snd (set_local_time ''US/Eastern'' net_two_timeouts boot)) =
     [failed_notice, failed_notice, recovery_notice] \<and>
   count_list (stdout (snd (set_local_time ''US/Eastern'' net_two_timeouts boot)))
     recovery_notice = 1 \<and>
   fst (get_ntp_time (net_down (ntp_calls boot + 9))) = Inr None \<and>
   fst (set_local_time ''US/Eastern'' net_down boot)
     = Inl (RuntimeError ''Failed to get NTP time'') \<and>
   ntp_calls (snd (set_local_time ''US/Eastern'' net_down boot)) = 10"
proof -
  have a: "\<forall>i<2. fst (get_ntp_time (net_two_timeouts (ntp_calls boot + i))) = Inr None"
    by (simp add: net_two_timeouts_def boot_def)
  have b: "fst (get_ntp_time (net_two_timeouts (ntp_calls boot + 2)))
             = Inr (Some utc_2024_03_10_08)"
    by (simp add: net_two_timeouts_def boot_def get_ntp_time_sample)
  have c: "\<forall>i<10. fst (get_ntp_time (net_down (ntp_calls boot + i))) = Inr None"
    by (simp add: net_down_def)
  have d: "fst (get_ntp_time (net_two_timeouts (ntp_calls boot + 0))) = Inr None"
          "fst (get_ntp_time (net_two_timeouts (ntp_calls boot + 1))) = Inr None"
          "fst (get_ntp_time (net_down (ntp_calls boot + 9))) = Inr None"
    by (simp_all add: net_two_timeouts_def net_down_def boot_def)
  show ?thesis
    using set_local_time_retry [OF eastern, of 2 net_two_timeouts boot utc_2024_03_10_08]
          set_local_time_retry [OF eastern, of 0 net_down boot] a b c d eastern notices_differ
    by (simp add: boot_def numeral_2_eq_2)
qed

text \<open>
  C7. For a zone name other than the four supported ones, \<^verbatim>\<open>set_local_time\<close> raises the
  \<^verbatim>\<open>ValueError\<close> whose message lists the four names, and leaves the world as it was: the
  time source has not been called.
\<close>

theorem set_local_time_unsupported_zone:
  "tz_name \<notin> {''US/Eastern'', ''US/Central'', ''US/Mountain'', ''US/Pacific''} \<Longrightarrow>
   set_local_time tz_name net w =
     (Inl (ValueError
        ''Unsupported timezone name (Supported are: US/Eastern, US/Central, US/Mountain, US/Pacific''),
      w) \<and>
   ntp_calls (snd (set_local_time tz_name net w)) = ntp_calls w"
  by (simp add: set_local_time_def TIMEZONES_def unsupported_zone_def)

theorem set_local_time_unsupported_zone_witness:
  "''Mars/Olympus'' \<notin> {''US/Eastern'', ''US/Central'', ''US/Mountain'', ''US/Pacific''} \<and>
   set_local_time ''Mars/Olympus'' net_two_timeouts boot =
     (Inl (ValueError
        ''Unsupported timezone name (Supported are: US/Eastern, US/Central, US/Mountain, US/Pacific''),
      boot) \<and>
   ntp_calls (snd (set_local_time ''Mars/Olympus'' net_two_timeouts boot)) = 0"
  using set_local_time_unsupported_zone [of "''Mars/Olympus''" net_two_timeouts boot]
  by (simp add: boot_def)

text \<open>
  C8. When \<^verbatim>\<open>set_local_time\<close> returns a local time, it has written the clock once, with
  \<^verbatim>\<open>(year, month, day, 0, hour, minute, second, 0)\<close> of that local time; when it raises,
  whatever the exception, it has not written the clock.
\<close>

theorem set_local_time_rtc:
  "(set_local_time tz_name net w = (Inr local_time, w') \<longrightarrow>
      rtc w' = rtc w @ [(year local_time, month local_time, mday local_time, 0,
                         hour local_time, minute local_time, second local_time, 0)]) \<and>
   (set_local_time tz_name net w = (Inl e, w') \<longrightarrow> rtc w' = rtc w)"
proof (cases "TIMEZONES tz_name")
  case None
  then show ?thesis by (auto simp add: set_local_time_def)
next
  case (Some off)
  obtain r w1 where loop: "retry_loop net 0 w = (r, w1)"
    by (cases "retry_loop net 0 w")
  then have w1: "rtc w1 = rtc w"
    using retry_loop_rtc [of net 0 w] by simp
  show ?thesis
    using Some loop w1
    by (auto simp add: set_local_time_def Let_def rtc_fields_def
             split: sum.splits option.splits)
qed

theorem set_local_time_rtc_witness:
  "set_local_time ''US/Eastern'' net_two_timeouts boot =
     (Inr local_2024_03_10_04,
      \<lparr> ntp_calls = 3, stdout = [failed_notice, failed_notice, recovery_notice],
        rtc = [(2024, 3, 10, 0, 4, 0, 0, 0)] \<rparr>) \<and>
   rtc \<lparr> ntp_calls = 3, stdout = [failed_notice, failed_notice, recovery_notice],
        rtc = [(2024, 3, 10, 0, 4, 0, 0, 0)] \<rparr>
     = rtc boot @ [(year local_2024_03_10_04, month local_2024_03_10_04,
                    mday local_2024_03_10_04, 0, hour local_2024_03_10_04,
                    minute local_2024_03_10_04, second local_2024_03_10_04, 0)] \<and>
   set_local_time ''US/Eastern'' net_down boot =
     (Inl (RuntimeError ''Failed to get NTP time''),
      \<lparr> ntp_calls = 10, stdout = replicate 10 failed_notice, rtc = [] \<rparr>) \<and>
   rtc \<lparr> ntp_calls = 10, stdout = replicate 10 failed_notice, rtc = [] \<rparr> = rtc boot"
  using set_local_time_rtc [of "''US/Eastern''" net_two_timeouts boot local_2024_03_10_04
          "\<lparr> ntp_calls = 3, stdout = [failed_notice, failed_notice, recovery_notice],
             rtc = [(2024, 3, 10, 0, 4, 0, 0, 0)] \<rparr>"]
        set_local_time_rtc [of "''US/Eastern''" net_down boot _
          "\<lparr> ntp_calls = 10, stdout = replicate 10 failed_notice, rtc = [] \<rparr>"
          "RuntimeError ''Failed to get NTP time''"]
        sync_sample sync_down
  by (simp add: boot_def local_2024_03_10_04_def)

end
